theory Spec2Isabelle
  imports Main
begin

section \<open>Exceptions, results and the outside world\<close>

text \<open>
  The exception classes that occur in \<^verbatim>\<open>vmconnector.py\<close>. All of them derive from
  Python's \<^verbatim>\<open>Exception\<close>, so a handler \<^verbatim>\<open>except Exception\<close> catches every value of
  this type. \<open>TransportError\<close> stands for what \<^verbatim>\<open>subprocess.run\<close> and
  \<^verbatim>\<open>subprocess.Popen\<close> raise themselves (\<^verbatim>\<open>TimeoutExpired\<close>, \<^verbatim>\<open>OSError\<close>).
  Each value carries the text that \<^verbatim>\<open>str(e)\<close> gives.
\<close>

datatype exn =
    RemoteExecutionError string
  | RemoteRebootDetected string
  | AttributeError string
  | RuntimeError string
  | ValueError string
  | TransportError string

fun str_exn :: "exn \<Rightarrow> string" where
  "str_exn (RemoteExecutionError m) = m"
| "str_exn (RemoteRebootDetected m) = m"
| "str_exn (AttributeError m) = m"
| "str_exn (RuntimeError m) = m"
| "str_exn (ValueError m) = m"
| "str_exn (TransportError m) = m"

text \<open>A call either returns a value or raises.\<close>

datatype 'a result = Ret 'a | Exc exn

text \<open>What a child process gave back to \<^verbatim>\<open>subprocess.run\<close>.\<close>

datatype completed = Completed (returncode: int) (stdout: string)

text \<open>What the operating system does with one call: it returns, or the call raises.\<close>

datatype 'a outcome = Returns 'a | Raises string

text \<open>
  The world outside the program. The \<open>k\<close>-th call of \<^verbatim>\<open>subprocess.run\<close> with argument
  vector \<open>argv\<close> has the outcome \<open>run_oracle k argv\<close>; the \<open>k\<close>-th \<^verbatim>\<open>subprocess.Popen\<close>
  block (launch, draining of both streams, wait) ends with the exit code or the exception
  \<open>popen_oracle k argv\<close>. The counters record how many calls were made. \<open>now\<close> is the
  reading of \<^verbatim>\<open>time.time()\<close> in whole seconds. Time passes in the three blocking
  calls: the \<open>k\<close>-th \<^verbatim>\<open>subprocess.run\<close> takes \<open>run_seconds k\<close>, the \<open>k\<close>-th
  \<^verbatim>\<open>subprocess.Popen\<close> block takes \<open>popen_seconds k\<close>, and the \<open>k\<close>-th \<^verbatim>\<open>time.sleep\<close>
  takes the requested length plus \<open>oversleep k\<close>. The clock never runs backwards. Console
  output is not modelled.
\<close>

record world =
  run_oracle :: "nat \<Rightarrow> string list \<Rightarrow> completed outcome"
  run_seconds :: "nat \<Rightarrow> nat"
  n_run :: nat
  popen_oracle :: "nat \<Rightarrow> string list \<Rightarrow> int outcome"
  popen_seconds :: "nat \<Rightarrow> nat"
  n_popen :: nat
  platform_system :: string
  now :: int
  oversleep :: "nat \<Rightarrow> nat"
  n_sleep :: nat

text \<open>The world after one more call of \<^verbatim>\<open>subprocess.run\<close> has come to its end.\<close>

definition elapse_run :: "world \<Rightarrow> world" where
  "elapse_run w = w\<lparr>n_run := Suc (n_run w), now := now w + int (run_seconds w (n_run w))\<rparr>"

text \<open>The world after one more \<^verbatim>\<open>subprocess.Popen\<close> block has come to its end.\<close>

definition elapse_popen :: "world \<Rightarrow> world" where
  "elapse_popen w =
     w\<lparr>n_popen := Suc (n_popen w), now := now w + int (popen_seconds w (n_popen w))\<rparr>"

text \<open>The world after one more \<^verbatim>\<open>time.sleep(secs)\<close> has returned.\<close>

definition elapse_sleep :: "int \<Rightarrow> world \<Rightarrow> world" where
  "elapse_sleep secs w =
     w\<lparr>now := now w + secs + int (oversleep w (n_sleep w)), n_sleep := Suc (n_sleep w)\<rparr>"

definition subprocess_run :: "string list \<Rightarrow> world \<Rightarrow> completed result \<times> world" where
  "subprocess_run argv w =
     (case run_oracle w (n_run w) argv of
        Returns c \<Rightarrow> (Ret c, elapse_run w)
      | Raises m \<Rightarrow> (Exc (TransportError m), elapse_run w))"

definition subprocess_Popen :: "string list \<Rightarrow> world \<Rightarrow> int result \<times> world" where
  "subprocess_Popen argv w =
     (case popen_oracle w (n_popen w) argv of
        Returns rc \<Rightarrow> (Ret rc, elapse_popen w)
      | Raises m \<Rightarrow> (Exc (TransportError m), elapse_popen w))"

text \<open>\<^verbatim>\<open>time.sleep(secs)\<close> raises \<^verbatim>\<open>ValueError\<close> on a negative length.\<close>

definition time_sleep :: "int \<Rightarrow> world \<Rightarrow> unit result \<times> world" where
  "time_sleep secs w =
     (if secs < 0 then (Exc (ValueError ''sleep length must be non-negative''), w)
      else (Ret (), elapse_sleep secs w))"

text \<open>A scripted oracle: the outcomes of the first calls in order, then a default.\<close>

definition script :: "'a list \<Rightarrow> 'a \<Rightarrow> nat \<Rightarrow> string list \<Rightarrow> 'a" where
  "script xs d k argv = (if k < length xs then xs ! k else d)"

text \<open>Scripted durations: those of the first calls in order, then a default.\<close>

definition timing :: "nat list \<Rightarrow> nat \<Rightarrow> nat \<Rightarrow> nat" where
  "timing ds d k = (if k < length ds then ds ! k else d)"

section \<open>Strings\<close>

text \<open>
  \<^verbatim>\<open>str.strip()\<close>: the white space of Python among the code points below 256.
\<close>

definition is_space :: "char \<Rightarrow> bool" where
  "is_space c =
     (let n = (of_char c :: nat) in
      (9 \<le> n \<and> n \<le> 13) \<or> (28 \<le> n \<and> n \<le> 32) \<or> n = 133 \<or> n = 160)"

definition strip :: "string \<Rightarrow> string" where
  "strip s = rev (dropWhile is_space (rev (dropWhile is_space s)))"

text \<open>\<^verbatim>\<open>str(n)\<close> for an integer: decimal digits, with a sign when negative.\<close>

definition digit_char :: "nat \<Rightarrow> char" where
  "digit_char d = ''0123456789'' ! d"

fun str_nat :: "nat \<Rightarrow> string" where
  "str_nat n = (if n < 10 then [digit_char n] else str_nat (n div 10) @ [digit_char (n mod 10)])"

declare str_nat.simps [simp del]

definition str_int :: "int \<Rightarrow> string" where
  "str_int i = (if i < 0 then CHR ''-'' # str_nat (nat (- i)) else str_nat (nat i))"

text \<open>\<^verbatim>\<open>list.insert(i, x)\<close> for an index inside the list.\<close>

definition list_insert :: "nat \<Rightarrow> 'a \<Rightarrow> 'a list \<Rightarrow> 'a list" where
  "list_insert i x xs = take i xs @ x # drop i xs"

section \<open>The connection object\<close>

record RemoteExecutor =
  hostname :: string
  username :: string
  key_file :: "string option"
  port :: int
  connected :: bool
  boot_time :: "string option"

definition RemoteExecutor_init ::
  "string \<Rightarrow> string \<Rightarrow> string option \<Rightarrow> int \<Rightarrow> RemoteExecutor" where
  "RemoteExecutor_init h u k p =
     \<lparr>hostname = h, username = u, key_file = k, port = p,
      connected = False, boot_time = None\<rparr>"

definition build_ssh_command :: "RemoteExecutor \<Rightarrow> string \<Rightarrow> string list" where
  "build_ssh_command self command =
     (let ssh_cmd = [''ssh'', ''-p'', str_int (port self), ''-o'', ''BatchMode=yes'',
                     ''-o'', ''ConnectTimeout=5'', username self @ ''@'' @ hostname self,
                     command]
      in case key_file self of
           None \<Rightarrow> ssh_cmd
         | Some k \<Rightarrow> if k \<noteq> [] then list_insert 2 k (list_insert 1 ''-i'' ssh_cmd)
                     else ssh_cmd)"

subsection \<open>\<^verbatim>\<open>is_alive\<close>\<close>

text \<open>
  The second half of \<^verbatim>\<open>is_alive\<close>, reached when the remote query did not exit with 0
  or raised: one ping, and \<^verbatim>\<open>False\<close> on each of its three branches.
\<close>

definition is_alive_ping :: "RemoteExecutor \<Rightarrow> world \<Rightarrow> bool result \<times> RemoteExecutor \<times> world" where
  "is_alive_ping self w =
     (let ping_command =
            (if platform_system w \<noteq> ''Windows'' then [''ping'', ''-c'', ''1'', hostname self]
             else [''ping'', ''-n'', ''1'', hostname self])
      in case subprocess_run ping_command w of
           (Ret ping_result, w1) \<Rightarrow>
             if returncode ping_result = 0 then (Ret False, self, w1)
             else (Ret False, self, w1)
         | (Exc e, w1) \<Rightarrow> (Ret False, self, w1))"

definition is_alive :: "RemoteExecutor \<Rightarrow> world \<Rightarrow> bool result \<times> RemoteExecutor \<times> world" where
  "is_alive self w =
     (let check_command = build_ssh_command self ''uptime -s''
      in case subprocess_run check_command w of
           (Ret res, w1) \<Rightarrow>
             if returncode res = 0
             then (Ret True, self\<lparr>boot_time := Some (strip (stdout res)), connected := True\<rparr>, w1)
             else is_alive_ping self w1
         | (Exc e, w1) \<Rightarrow> is_alive_ping self w1)"

subsection \<open>\<^verbatim>\<open>_get_boot_time\<close>\<close>

text \<open>The exit code is not looked at; any exception gives the empty string.\<close>

definition get_boot_time :: "RemoteExecutor \<Rightarrow> world \<Rightarrow> string \<times> world" where
  "get_boot_time self w =
     (case subprocess_run (build_ssh_command self ''uptime -s'') w of
        (Ret res, w1) \<Rightarrow> (strip (stdout res), w1)
      | (Exc e, w1) \<Rightarrow> ([], w1))"

subsection \<open>\<^verbatim>\<open>reconnect\<close>\<close>

text \<open>
  The two handlers of \<^verbatim>\<open>reconnect\<close>: \<^verbatim>\<open>RemoteRebootDetected\<close> is raised again, any
  other exception gives \<^verbatim>\<open>False\<close>.
\<close>

fun reconnect_except :: "exn \<Rightarrow> bool result" where
  "reconnect_except (RemoteRebootDetected m) = Exc (RemoteRebootDetected m)"
| "reconnect_except e = Ret False"

definition reboot_message :: "string \<Rightarrow> string \<Rightarrow> string" where
  "reboot_message old new = ''Remote host rebooted! Old: '' @ old @ '', New: '' @ new"

definition reconnect :: "RemoteExecutor \<Rightarrow> world \<Rightarrow> bool result \<times> RemoteExecutor \<times> world" where
  "reconnect self w =
     (case is_alive self w of
        (Exc e, s1, w1) \<Rightarrow> (reconnect_except e, s1, w1)
      | (Ret alive, s1, w1) \<Rightarrow>
          if \<not> alive then (Ret False, s1, w1)
          else
            (let current_boot_time = boot_time s1 in
             case get_boot_time s1 w1 of
               (new_boot_time, w2) \<Rightarrow>
                 (case current_boot_time of
                    Some old \<Rightarrow>
                      if old \<noteq> [] \<and> old \<noteq> new_boot_time
                      then (reconnect_except (RemoteRebootDetected (reboot_message old new_boot_time)),
                            s1\<lparr>boot_time := Some new_boot_time\<rparr>, w2)
                      else (Ret True, s1\<lparr>boot_time := Some new_boot_time\<rparr>, w2)
                  | None \<Rightarrow> (Ret True, s1\<lparr>boot_time := Some new_boot_time\<rparr>, w2))))"

subsection \<open>\<^verbatim>\<open>was_rebooted\<close>\<close>

text \<open>
  The names an instance of \<^verbatim>\<open>RemoteExecutor\<close> resolves besides those of \<^verbatim>\<open>object\<close>:
  the fields set by \<^verbatim>\<open>__init__\<close> and the methods of the class.
\<close>

definition RemoteExecutor_attributes :: "string list" where
  "RemoteExecutor_attributes =
     [''hostname'', ''username'', ''key_file'', ''port'', ''connected'', ''boot_time'',
      ''__init__'', ''is_alive'', ''reconnect'', ''was_rebooted'', ''_build_ssh_command'',
      ''_get_boot_time'', ''stream_execute'', ''_wait_for_reboot_and_reconnect'']"

text \<open>
  \<^verbatim>\<open>self.execute\<close>: the attribute when the instance has it, \<^verbatim>\<open>AttributeError\<close>
  otherwise. What the attribute would be is the parameter \<open>callee\<close>: a callable taking the
  command and the timeout and giving exit code, output and error output.
\<close>

type_synonym execute_fn =
  "string \<Rightarrow> int \<Rightarrow> RemoteExecutor \<Rightarrow> world \<Rightarrow> (int \<times> string \<times> string) result \<times> RemoteExecutor \<times> world"

definition quoted :: "string \<Rightarrow> string" where
  "quoted s = CHR 0x27 # s @ [CHR 0x27]"

definition getattr_execute :: "execute_fn \<Rightarrow> execute_fn result" where
  "getattr_execute callee =
     (if ''execute'' \<in> set RemoteExecutor_attributes then Ret callee
      else Exc (AttributeError (quoted ''RemoteExecutor'' @ '' object has no attribute ''
                                @ quoted ''execute'')))"

text \<open>The only handler of \<^verbatim>\<open>was_rebooted\<close> catches \<^verbatim>\<open>RemoteExecutionError\<close>.\<close>

fun was_rebooted_except :: "exn \<Rightarrow> bool result" where
  "was_rebooted_except (RemoteExecutionError m) = Ret False"
| "was_rebooted_except e = Exc e"

definition was_rebooted ::
  "execute_fn \<Rightarrow> RemoteExecutor \<Rightarrow> world \<Rightarrow> bool result \<times> RemoteExecutor \<times> world" where
  "was_rebooted callee self w =
     (case getattr_execute callee of
        Exc e \<Rightarrow> (was_rebooted_except e, self, w)
      | Ret execute \<Rightarrow>
          (case execute ''uptime -s'' 5 self w of
             (Exc e, s1, w1) \<Rightarrow> (was_rebooted_except e, s1, w1)
           | (Ret (code, out, err), s1, w1) \<Rightarrow>
               if code = 0 then
                 (let current_boot_time = strip out;
                      rebooted = (boot_time s1 \<noteq> None \<and> boot_time s1 \<noteq> Some current_boot_time)
                  in (Ret rebooted, s1\<lparr>boot_time := Some current_boot_time\<rparr>, w1))
               else (Ret False, s1, w1)))"

subsection \<open>\<^verbatim>\<open>_wait_for_reboot_and_reconnect\<close>\<close>

text \<open>
  The polling loop. The guard reads the clock; \<^verbatim>\<open>_get_boot_time\<close> cannot raise, so the
  handler inside the loop body is never entered; \<^verbatim>\<open>old_boot_time\<close> only selects the line
  that is printed. The sleep stands outside the \<^verbatim>\<open>try\<close>, so what it raises leaves the
  function. Nothing in the source bounds the number of rounds but the clock, so the loop
  is a partial function: \<open>None\<close> is a run that never ends.
\<close>

partial_function (option) wait_loop ::
  "int \<Rightarrow> int \<Rightarrow> int \<Rightarrow> RemoteExecutor \<Rightarrow> world \<Rightarrow> (bool result \<times> RemoteExecutor \<times> world) option" where
  "wait_loop timeout interval start_time self w =
     (if now w - start_time < timeout then
        (case get_boot_time self w of
           (new_boot_time, w1) \<Rightarrow>
             if new_boot_time \<noteq> []
             then Some (Ret True, self\<lparr>connected := True, boot_time := Some new_boot_time\<rparr>, w1)
             else (case time_sleep interval w1 of
                     (Exc e, w2) \<Rightarrow> Some (Exc e, self, w2)
                   | (Ret u, w2) \<Rightarrow> wait_loop timeout interval start_time self w2))
      else Some (Exc (RemoteExecutionError '' Timeout: Remote host did not come back online.''),
                 self, w))"

definition wait_for_reboot_and_reconnect ::
  "int \<Rightarrow> int \<Rightarrow> RemoteExecutor \<Rightarrow> world \<Rightarrow> (bool result \<times> RemoteExecutor \<times> world) option" where
  "wait_for_reboot_and_reconnect timeout interval self w =
     (let start_time = now w in wait_loop timeout interval start_time self w)"

subsection \<open>\<^verbatim>\<open>stream_execute\<close>\<close>

text \<open>
  The wrappers of the two \<^verbatim>\<open>except Exception as e\<close> handlers, and the test of the
  handler \<^verbatim>\<open>except RemoteRebootDetected\<close>.
\<close>

definition reconnect_failed :: "exn \<Rightarrow> unit result" where
  "reconnect_failed e = Exc (RemoteExecutionError (''Reconnect failed: '' @ str_exn e))"

definition streaming_failed :: "exn \<Rightarrow> unit result" where
  "streaming_failed e = Exc (RemoteExecutionError (''Streaming command failed: '' @ str_exn e))"

fun is_reboot :: "exn \<Rightarrow> bool" where
  "is_reboot (RemoteRebootDetected m) = True"
| "is_reboot e = False"

text \<open>
  In the branch for a session that is not connected the whole block, the recursive call
  included, stands inside \<^verbatim>\<open>try ... except Exception\<close>; the value \<^verbatim>\<open>reconnect\<close> returns
  is dropped. The bare \<^verbatim>\<open>raise\<close> of that branch stands in no handler of this function:
  Python raises again the exception that is being handled where \<open>stream_execute\<close> was
  called from, and \<^verbatim>\<open>RuntimeError\<close> when there is none. That exception is the parameter
  \<open>handling\<close>: \<open>None\<close> for a call from outside any handler, the caught exception for the
  call inside the handler \<^verbatim>\<open>except RemoteRebootDetected as e\<close>, and the caller's own for
  the calls inside the two \<^verbatim>\<open>try\<close> bodies. In the connected branch the inner \<open>case\<close> is
  the body of the \<^verbatim>\<open>try\<close> and the outer one its two handlers; the retry inside the first
  handler runs outside the \<^verbatim>\<open>try\<close>. The recovery loop is called with its defaults, 300
  and 5.
\<close>

definition bare_raise :: "exn option \<Rightarrow> exn" where
  "bare_raise handling =
     (case handling of
        None \<Rightarrow> RuntimeError ''No active exception to reraise''
      | Some e \<Rightarrow> e)"

function stream_execute ::
  "string \<Rightarrow> bool \<Rightarrow> exn option \<Rightarrow> RemoteExecutor \<Rightarrow> world
     \<Rightarrow> (unit result \<times> RemoteExecutor \<times> world) option" where
  "stream_execute command retry_on_reboot handling self w =
     (if \<not> connected self then
        (case reconnect self w of
           (Exc e, s1, w1) \<Rightarrow> Some (reconnect_failed e, s1, w1)
         | (Ret ok, s1, w1) \<Rightarrow>
             if retry_on_reboot then
               (case stream_execute command False handling s1 w1 of
                  None \<Rightarrow> None
                | Some (Exc e, s2, w2) \<Rightarrow> Some (reconnect_failed e, s2, w2)
                | Some (Ret v, s2, w2) \<Rightarrow> Some (Ret v, s2, w2))
             else Some (reconnect_failed (bare_raise handling), s1, w1))
      else
        (case
           (case subprocess_Popen (build_ssh_command self command) w of
              (Exc e, w1) \<Rightarrow> Some (Exc e, self, w1)
            | (Ret rc, w1) \<Rightarrow>
                if rc = 255 then
                  (case wait_for_reboot_and_reconnect 300 5 self w1 of
                     None \<Rightarrow> None
                   | Some (Exc e, s2, w2) \<Rightarrow> Some (Exc e, s2, w2)
                   | Some (Ret b, s2, w2) \<Rightarrow>
                       if retry_on_reboot then stream_execute command False handling s2 w2
                       else Some (Exc (RemoteExecutionError ''SSH failed and retry exhausted.''),
                                  s2, w2))
                else if rc \<noteq> 0 then
                  Some (Exc (RemoteExecutionError (''Command failed with code '' @ str_int rc)),
                        self, w1)
                else Some (Ret (), self, w1))
         of
           None \<Rightarrow> None
         | Some (Ret v, s3, w3) \<Rightarrow> Some (Ret v, s3, w3)
         | Some (Exc e, s3, w3) \<Rightarrow>
             if is_reboot e then
               (if retry_on_reboot then stream_execute command False (Some e) s3 w3
                else Some (Exc e, s3, w3))
             else Some (streaming_failed e, s3, w3)))"
  by pat_completeness auto
termination
  by (relation "measure (\<lambda>(c, r, h, s, w). if r then 1 else 0)") auto

declare stream_execute.simps [simp del]

section \<open>Notions used in the statements\<close>

text \<open>
  What \<^verbatim>\<open>_get_boot_time\<close> returns when it makes the \<open>k\<close>-th call of
  \<^verbatim>\<open>subprocess.run\<close>.
\<close>

definition probe_reply :: "RemoteExecutor \<Rightarrow> world \<Rightarrow> nat \<Rightarrow> string" where
  "probe_reply self w k = fst (get_boot_time self (w\<lparr>n_run := k\<rparr>))"

text \<open>
  The world after \<open>j\<close> rounds of the polling loop that found no answer: each round is one
  call of \<^verbatim>\<open>subprocess.run\<close> and one sleep.
\<close>

fun after_rounds :: "int \<Rightarrow> nat \<Rightarrow> world \<Rightarrow> world" where
  "after_rounds interval 0 w = w"
| "after_rounds interval (Suc j) w = after_rounds interval j (elapse_sleep interval (elapse_run w))"

text \<open>The exception at the end of \<^verbatim>\<open>_wait_for_reboot_and_reconnect\<close>.\<close>

definition timeout_error :: exn where
  "timeout_error = RemoteExecutionError '' Timeout: Remote host did not come back online.''"

text \<open>The message of the exception raised once the retry is used up.\<close>

definition retry_exhausted :: exn where
  "retry_exhausted = RemoteExecutionError ''SSH failed and retry exhausted.''"

text \<open>
  A concrete executor and a family of concrete worlds for the examples: the calls of
  \<^verbatim>\<open>subprocess.run\<close> and \<^verbatim>\<open>subprocess.Popen\<close> follow the two scripts and raise once
  a script is used up; the clock starts at 0, the calls take no time and no sleep
  overruns, unless an example says otherwise.
\<close>

definition host0 :: RemoteExecutor where
  "host0 = RemoteExecutor_init ''host'' ''user'' (Some ''key'') 22"

definition world0 :: "completed outcome list \<Rightarrow> int outcome list \<Rightarrow> world" where
  "world0 runs popens =
     \<lparr>run_oracle = script runs (Raises ''timed out''), run_seconds = timing [] 0, n_run = 0,
      popen_oracle = script popens (Raises ''no such file''), popen_seconds = timing [] 0,
      n_popen = 0, platform_system = ''Linux'', now = 0, oversleep = timing [] 0,
      n_sleep = 0\<rparr>"

section \<open>The liveness probe and the fingerprint\<close>

lemma build_ssh_command_frame [simp]:
  "build_ssh_command (self\<lparr>boot_time := b\<rparr>) c = build_ssh_command self c"
  "build_ssh_command (self\<lparr>connected := d\<rparr>) c = build_ssh_command self c"
  by (simp_all add: build_ssh_command_def)

lemma elapse_run_simps [simp]:
  "n_run (elapse_run w) = Suc (n_run w)"
  "now (elapse_run w) = now w + int (run_seconds w (n_run w))"
  "n_sleep (elapse_run w) = n_sleep w"
  "n_popen (elapse_run w) = n_popen w"
  "run_oracle (elapse_run w) = run_oracle w"
  "run_seconds (elapse_run w) = run_seconds w"
  "popen_oracle (elapse_run w) = popen_oracle w"
  "popen_seconds (elapse_run w) = popen_seconds w"
  "oversleep (elapse_run w) = oversleep w"
  "platform_system (elapse_run w) = platform_system w"
  by (simp_all add: elapse_run_def)

lemma elapse_sleep_simps [simp]:
  "n_run (elapse_sleep secs w) = n_run w"
  "now (elapse_sleep secs w) = now w + secs + int (oversleep w (n_sleep w))"
  "n_sleep (elapse_sleep secs w) = Suc (n_sleep w)"
  "n_popen (elapse_sleep secs w) = n_popen w"
  "run_oracle (elapse_sleep secs w) = run_oracle w"
  "run_seconds (elapse_sleep secs w) = run_seconds w"
  "popen_oracle (elapse_sleep secs w) = popen_oracle w"
  "popen_seconds (elapse_sleep secs w) = popen_seconds w"
  "oversleep (elapse_sleep secs w) = oversleep w"
  "platform_system (elapse_sleep secs w) = platform_system w"
  by (simp_all add: elapse_sleep_def)

lemma elapse_popen_simps [simp]:
  "n_run (elapse_popen w) = n_run w"
  "now (elapse_popen w) = now w + int (popen_seconds w (n_popen w))"
  "n_sleep (elapse_popen w) = n_sleep w"
  "n_popen (elapse_popen w) = Suc (n_popen w)"
  "run_oracle (elapse_popen w) = run_oracle w"
  "run_seconds (elapse_popen w) = run_seconds w"
  "popen_oracle (elapse_popen w) = popen_oracle w"
  "popen_seconds (elapse_popen w) = popen_seconds w"
  "oversleep (elapse_popen w) = oversleep w"
  "platform_system (elapse_popen w) = platform_system w"
  by (simp_all add: elapse_popen_def)

lemma is_alive_ping_eq: "is_alive_ping self w = (Ret False, self, elapse_run w)"
  by (simp add: is_alive_ping_def subprocess_run_def Let_def split: outcome.split)

lemma is_alive_cases:
  "is_alive self w =
     (case run_oracle w (n_run w) (build_ssh_command self ''uptime -s'') of
        Returns res \<Rightarrow>
          if returncode res = 0
          then (Ret True, self\<lparr>boot_time := Some (strip (stdout res)), connected := True\<rparr>,
                elapse_run w)
          else (Ret False, self, elapse_run (elapse_run w))
      | Raises m \<Rightarrow> (Ret False, self, elapse_run (elapse_run w)))"
  by (simp add: is_alive_def is_alive_ping_eq subprocess_run_def Let_def split: outcome.split)

lemma probe_reply_eq:
  "probe_reply self w k =
     (case run_oracle w k (build_ssh_command self ''uptime -s'') of
        Returns res \<Rightarrow> strip (stdout res) | Raises m \<Rightarrow> [])"
  by (simp add: probe_reply_def get_boot_time_def subprocess_run_def split: outcome.split)

lemma get_boot_time_eq:
  "get_boot_time self w = (probe_reply self w (n_run w), elapse_run w)"
  by (simp add: probe_reply_eq get_boot_time_def subprocess_run_def split: outcome.split)

lemma probe_reply_frame [simp]:
  "probe_reply self (elapse_run w) k = probe_reply self w k"
  "probe_reply self (elapse_sleep secs w) k = probe_reply self w k"
  "probe_reply self (elapse_popen w) k = probe_reply self w k"
  "probe_reply (self\<lparr>boot_time := bt\<rparr>) w k = probe_reply self w k"
  "probe_reply (self\<lparr>connected := cn\<rparr>) w k = probe_reply self w k"
  by (simp_all add: probe_reply_eq)

lemma reconnect_cases:
  "reconnect self w =
     (case run_oracle w (n_run w) (build_ssh_command self ''uptime -s'') of
        Returns res \<Rightarrow>
          if returncode res = 0 then
            (let old = strip (stdout res);
                 s1 = self\<lparr>boot_time := Some old, connected := True\<rparr>;
                 new = probe_reply self w (Suc (n_run w));
                 w2 = elapse_run (elapse_run w)
             in if old \<noteq> [] \<and> old \<noteq> new
                then (Exc (RemoteRebootDetected (reboot_message old new)),
                      s1\<lparr>boot_time := Some new\<rparr>, w2)
                else (Ret True, s1\<lparr>boot_time := Some new\<rparr>, w2))
          else (Ret False, self, elapse_run (elapse_run w))
      | Raises m \<Rightarrow> (Ret False, self, elapse_run (elapse_run w)))"
  by (simp add: reconnect_def is_alive_cases get_boot_time_eq Let_def split: outcome.split)

text \<open>Evaluation of the concrete worlds.\<close>

lemmas world0_simps = world0_def script_def timing_def elapse_run_def elapse_sleep_def elapse_popen_def

text \<open>
  Claim C7. The liveness probe always returns a Boolean and never raises: whatever the
  remote query and the ping do (return any exit code, or raise), \<open>is_alive\<close> returns;
  and it returns \<^verbatim>\<open>False\<close> whenever the remote query raised or exited with a code other
  than 0, whatever the ping did afterwards.
\<close>

theorem is_alive_never_raises:
  "(\<exists>b self' w'. is_alive self w = (Ret b, self', w')) \<and>
   (\<forall>m. run_oracle w (n_run w) (build_ssh_command self ''uptime -s'') = Raises m
        \<longrightarrow> fst (is_alive self w) = Ret False) \<and>
   (\<forall>res. run_oracle w (n_run w) (build_ssh_command self ''uptime -s'') = Returns res
          \<and> returncode res \<noteq> 0
        \<longrightarrow> fst (is_alive self w) = Ret False)"
  by (auto simp add: is_alive_cases split: outcome.split)

text \<open>Both the remote query and the ping raise: the probe returns \<^verbatim>\<open>False\<close>.\<close>

theorem is_alive_never_raises_witness:
  "run_oracle (world0 [] []) (n_run (world0 [] [])) (build_ssh_command host0 ''uptime -s'')
     = Raises ''timed out''
   \<and> is_alive host0 (world0 [] []) = (Ret False, host0, world0 [] [] \<lparr>n_run := 2\<rparr>)"
  using is_alive_never_raises [of host0 "world0 [] []"]
  by (simp add: is_alive_cases world0_simps)

text \<open>
  Claim C8. An unreachable outcome leaves the fingerprint alone: when \<open>is_alive\<close> returns
  \<^verbatim>\<open>False\<close> the object is unchanged, when \<open>reconnect\<close> returns \<^verbatim>\<open>False\<close> the object is
  unchanged, and both return \<^verbatim>\<open>False\<close> whenever the remote query does not exit with 0,
  whether the ping that follows succeeds, fails or raises.
\<close>

theorem unreachable_keeps_boot_time:
  "(fst (is_alive self w) = Ret False \<longrightarrow> fst (snd (is_alive self w)) = self) \<and>
   (fst (reconnect self w) = Ret False \<longrightarrow> fst (snd (reconnect self w)) = self) \<and>
   ((\<forall>res. run_oracle w (n_run w) (build_ssh_command self ''uptime -s'') = Returns res
            \<longrightarrow> returncode res \<noteq> 0)
      \<longrightarrow> fst (is_alive self w) = Ret False \<and> fst (reconnect self w) = Ret False)"
  by (auto simp add: is_alive_cases reconnect_cases Let_def split: outcome.splits if_splits)

text \<open>The remote query exits with 255 and the ping succeeds: \<open>B1\<close> stays.\<close>

theorem unreachable_keeps_boot_time_witness:
  "fst (is_alive (host0\<lparr>boot_time := Some ''B1''\<rparr>)
          (world0 [Returns (Completed 255 []), Returns (Completed 0 [])] [])) = Ret False
   \<and> boot_time (fst (snd (is_alive (host0\<lparr>boot_time := Some ''B1''\<rparr>)
          (world0 [Returns (Completed 255 []), Returns (Completed 0 [])] [])))) = Some ''B1''
   \<and> fst (reconnect (host0\<lparr>boot_time := Some ''B1''\<rparr>)
          (world0 [Returns (Completed 255 []), Returns (Completed 0 [])] [])) = Ret False
   \<and> boot_time (fst (snd (reconnect (host0\<lparr>boot_time := Some ''B1''\<rparr>)
          (world0 [Returns (Completed 255 []), Returns (Completed 0 [])] [])))) = Some ''B1''"
  using unreachable_keeps_boot_time
    [of "host0\<lparr>boot_time := Some ''B1''\<rparr>"
        "world0 [Returns (Completed 255 []), Returns (Completed 0 [])] []"]
  by (simp add: is_alive_cases reconnect_cases world0_def script_def)

text \<open>
  Claim C9. \<open>was_rebooted\<close> never returns a Boolean and never changes the object: the
  class has no attribute \<^verbatim>\<open>execute\<close>, the lookup raises \<^verbatim>\<open>AttributeError\<close>, the only
  handler catches \<^verbatim>\<open>RemoteExecutionError\<close>, so the error leaves the method, for every
  state and every world (and whatever the attribute would have been).
\<close>

theorem was_rebooted_always_raises:
  "was_rebooted callee self w =
     (Exc (AttributeError (quoted ''RemoteExecutor'' @ '' object has no attribute ''
                           @ quoted ''execute'')), self, w)"
  by (simp add: was_rebooted_def getattr_execute_def RemoteExecutor_attributes_def)

text \<open>
  Claim C10. \<open>reconnect\<close> can report a reboot that did not happen: when the liveness
  probe exits with 0 and a fingerprint that is not empty, and the second query of the same
  call raises (or gives no output), \<^verbatim>\<open>_get_boot_time\<close> answers the empty string,
  \<open>reconnect\<close> raises \<^verbatim>\<open>RemoteRebootDetected\<close> with the empty string as the new value and
  stores the empty string as the boot time. The world has moved by the two queries.
\<close>

theorem reconnect_false_reboot:
  assumes "run_oracle w (n_run w) (build_ssh_command self ''uptime -s'') = Returns (Completed 0 out)"
      and "strip out \<noteq> []"
      and "run_oracle w (Suc (n_run w)) (build_ssh_command self ''uptime -s'') = Raises m
           \<or> (\<exists>rc out2. run_oracle w (Suc (n_run w)) (build_ssh_command self ''uptime -s'')
                          = Returns (Completed rc out2) \<and> strip out2 = [])"
  shows "reconnect self w =
           (Exc (RemoteRebootDetected (reboot_message (strip out) [])),
            self\<lparr>boot_time := Some [], connected := True\<rparr>,
            elapse_run (elapse_run w))
         \<and> get_boot_time (self\<lparr>boot_time := Some (strip out), connected := True\<rparr>)
                          (elapse_run w)
             = ([], elapse_run (elapse_run w))"
  using assms
  by (auto simp add: reconnect_cases get_boot_time_eq probe_reply_eq Let_def)

text \<open>The probe answers \<open>B1\<close>, the second query times out.\<close>

theorem reconnect_false_reboot_witness:
  "run_oracle (world0 [Returns (Completed 0 ''B1'')] []) (n_run (world0 [Returns (Completed 0 ''B1'')] []))
      (build_ssh_command host0 ''uptime -s'') = Returns (Completed 0 ''B1'')
   \<and> strip ''B1'' \<noteq> []
   \<and> run_oracle (world0 [Returns (Completed 0 ''B1'')] []) (Suc (n_run (world0 [Returns (Completed 0 ''B1'')] [])))
      (build_ssh_command host0 ''uptime -s'') = Raises ''timed out''
   \<and> reconnect host0 (world0 [Returns (Completed 0 ''B1'')] []) =
        (Exc (RemoteRebootDetected ''Remote host rebooted! Old: B1, New: ''),
         host0\<lparr>boot_time := Some [], connected := True\<rparr>,
         world0 [Returns (Completed 0 ''B1'')] [] \<lparr>n_run := 2\<rparr>)"
proof -
  let ?w = "world0 [Returns (Completed 0 ''B1'')] []"
  have h1: "run_oracle ?w (n_run ?w) (build_ssh_command host0 ''uptime -s'')
              = Returns (Completed 0 ''B1'')"
    by (simp add: world0_def script_def)
  have h2: "strip ''B1'' \<noteq> []"
    by (simp add: strip_def is_space_def)
  have h3: "run_oracle ?w (Suc (n_run ?w)) (build_ssh_command host0 ''uptime -s'')
              = Raises ''timed out''"
    by (simp add: world0_def script_def)
  have s: "strip ''B1'' = ''B1''"
    by (simp add: strip_def is_space_def)
  from reconnect_false_reboot [OF h1 h2 disjI1 [OF h3]] h1 h2 h3 show ?thesis
    by (simp add: s reboot_message_def world0_simps)
qed

text \<open>
  Claim C1 (the code departs from it). The stored boot time is \<open>B1\<close>, the host has
  rebooted and answers \<open>B2\<close> to both queries of the call. \<open>is_alive\<close> stores \<open>B2\<close> before
  \<open>reconnect\<close> reads \<^verbatim>\<open>self.boot_time\<close>, so the comparison is between the two fresh
  answers: \<open>reconnect\<close> returns \<^verbatim>\<open>True\<close> and no \<^verbatim>\<open>RemoteRebootDetected\<close> is raised.
\<close>

theorem reconnect_misses_reboot:
  "reconnect (host0\<lparr>connected := True, boot_time := Some ''B1''\<rparr>)
        (world0 [Returns (Completed 0 ''B2''), Returns (Completed 0 ''B2'')] [])
   = (Ret True, host0\<lparr>connected := True, boot_time := Some ''B2''\<rparr>,
      world0 [Returns (Completed 0 ''B2''), Returns (Completed 0 ''B2'')] [] \<lparr>n_run := 2\<rparr>)"
  by (simp add: reconnect_cases probe_reply_eq world0_simps host0_def
        RemoteExecutor_init_def Let_def strip_def is_space_def)

text \<open>More generally, what \<open>reconnect\<close> answers never depends on the stored boot time.\<close>

lemma reconnect_ignores_stored_boot_time:
  "fst (reconnect (self\<lparr>boot_time := b\<rparr>) w) = fst (reconnect self w)"
  by (simp add: reconnect_cases Let_def split: outcome.split)


section \<open>The recovery loop\<close>

lemma after_rounds_frame [simp]:
  "n_run (after_rounds interval j w) = n_run w + j"
  "n_sleep (after_rounds interval j w) = n_sleep w + j"
  "n_popen (after_rounds interval j w) = n_popen w"
  "run_oracle (after_rounds interval j w) = run_oracle w"
  "popen_oracle (after_rounds interval j w) = popen_oracle w"
  "popen_seconds (after_rounds interval j w) = popen_seconds w"
  by (induction j arbitrary: w; simp)+

lemma probe_reply_after_rounds [simp]:
  "probe_reply self (after_rounds interval j w) k = probe_reply self w k"
  by (simp add: probe_reply_eq)

lemma after_rounds_now:
  "0 \<le> interval \<Longrightarrow> now w + int j * interval \<le> now (after_rounds interval j w)"
proof (induction j arbitrary: w)
  case 0
  then show ?case by simp
next
  case (Suc j)
  from Suc.IH [OF Suc.prems, of "elapse_sleep interval (elapse_run w)"]
  show ?case by (simp add: algebra_simps)
qed

text \<open>The loop stops at a guard that fails and at an answer that is not empty.\<close>

lemma wait_loop_deadline:
  "\<not> now w - st < timeout \<Longrightarrow>
   wait_loop timeout interval st self w = Some (Exc timeout_error, self, w)"
  by (subst wait_loop.simps) (simp add: timeout_error_def)

lemma wait_loop_answer:
  "now w - st < timeout \<Longrightarrow> probe_reply self w (n_run w) \<noteq> [] \<Longrightarrow>
   wait_loop timeout interval st self w =
     Some (Ret True, self\<lparr>connected := True, boot_time := Some (probe_reply self w (n_run w))\<rparr>,
           elapse_run w)"
  by (subst wait_loop.simps) (simp add: get_boot_time_eq)

text \<open>It goes through every round that starts before the deadline and finds no answer.\<close>

lemma wait_loop_rounds:
  assumes "0 \<le> interval"
      and "\<forall>i<j. now (after_rounds interval i w) - st < timeout
                 \<and> probe_reply self w (n_run w + i) = []"
  shows "wait_loop timeout interval st self w
           = wait_loop timeout interval st self (after_rounds interval j w)"
  using assms(2)
proof (induction j arbitrary: w)
  case 0
  then show ?case by simp
next
  case (Suc j)
  let ?w2 = "elapse_sleep interval (elapse_run w)"
  from Suc.prems have first: "now w - st < timeout" "probe_reply self w (n_run w) = []"
    by force+
  have step: "wait_loop timeout interval st self w = wait_loop timeout interval st self ?w2"
    using first assms(1)
    by (subst wait_loop.simps) (simp add: get_boot_time_eq time_sleep_def)
  have "\<forall>i<j. now (after_rounds interval i ?w2) - st < timeout
                 \<and> probe_reply self ?w2 (n_run ?w2 + i) = []"
  proof (intro allI impI)
    fix i assume "i < j"
    then have "Suc i < Suc j" by simp
    with Suc.prems have "now (after_rounds interval (Suc i) w) - st < timeout
                 \<and> probe_reply self w (n_run w + Suc i) = []"
      by blast
    then show "now (after_rounds interval i ?w2) - st < timeout
                 \<and> probe_reply self ?w2 (n_run ?w2 + i) = []"
      by simp
  qed
  from Suc.IH [OF this] step show ?case by simp
qed

text \<open>
  With a positive interval some round is the last: every round moves the clock by at
  least the interval, so the guard fails in the end.
\<close>

lemma last_round_exists:
  assumes "0 < interval"
  shows "\<exists>j. (\<forall>i<j. now (after_rounds interval i w) - st < timeout
                     \<and> probe_reply self w (n_run w + i) = [])
            \<and> (\<not> now (after_rounds interval j w) - st < timeout
               \<or> probe_reply self w (n_run w + j) \<noteq> [])"
proof -
  let ?Q = "\<lambda>j. \<not> now (after_rounds interval j w) - st < timeout
               \<or> probe_reply self w (n_run w + j) \<noteq> []"
  let ?n = "nat (timeout - (now w - st))"
  have "now w + int ?n * interval \<le> now (after_rounds interval ?n w)"
    using assms by (intro after_rounds_now) simp
  moreover have "int ?n \<le> int ?n * interval"
    using assms by (simp add: mult_le_cancel_left1)
  ultimately have "\<not> now (after_rounds interval ?n w) - st < timeout"
    by linarith
  then have ex: "\<exists>j. ?Q j" by blast
  define j where "j = (LEAST j. ?Q j)"
  have "?Q j" unfolding j_def using ex by (rule LeastI_ex)
  moreover have "\<forall>i<j. \<not> ?Q i"
    unfolding j_def using not_less_Least by blast
  ultimately show ?thesis by blast
qed

lemma wait_loop_result:
  assumes "0 < interval"
  shows "\<exists>j. (j = 0 \<or> (int j - 1) * interval < timeout - (now w - st))
      \<and> (\<forall>i<j. now (after_rounds interval i w) - st < timeout
                 \<and> probe_reply self w (n_run w + i) = [])
      \<and> (if now (after_rounds interval j w) - st < timeout
          then probe_reply self w (n_run w + j) \<noteq> []
               \<and> wait_loop timeout interval st self w =
                   Some (Ret True,
                         self\<lparr>connected := True,
                               boot_time := Some (probe_reply self w (n_run w + j))\<rparr>,
                         elapse_run (after_rounds interval j w))
          else wait_loop timeout interval st self w =
                   Some (Exc timeout_error, self, after_rounds interval j w))"
proof -
  from last_round_exists [OF assms, of w st timeout self] obtain j where
    before: "\<forall>i<j. now (after_rounds interval i w) - st < timeout
                     \<and> probe_reply self w (n_run w + i) = []"
    and last: "\<not> now (after_rounds interval j w) - st < timeout
               \<or> probe_reply self w (n_run w + j) \<noteq> []"
    by blast
  have I: "0 \<le> interval" using assms by simp
  have skip: "wait_loop timeout interval st self w
           = wait_loop timeout interval st self (after_rounds interval j w)"
    using I before by (rule wait_loop_rounds)
  have bound: "j = 0 \<or> (int j - 1) * interval < timeout - (now w - st)"
  proof (cases j)
    case 0
    then show ?thesis by simp
  next
    case (Suc k)
    with before have "now (after_rounds interval k w) - st < timeout" by simp
    moreover have "now w + int k * interval \<le> now (after_rounds interval k w)"
      using I by (rule after_rounds_now)
    ultimately show ?thesis using Suc by simp
  qed
  show ?thesis
  proof (cases "now (after_rounds interval j w) - st < timeout")
    case True
    with last have ans: "probe_reply self w (n_run w + j) \<noteq> []" by simp
    from wait_loop_answer [of "after_rounds interval j w" st timeout self interval] True ans
    have "wait_loop timeout interval st self (after_rounds interval j w) =
            Some (Ret True,
                  self\<lparr>connected := True, boot_time := Some (probe_reply self w (n_run w + j))\<rparr>,
                  elapse_run (after_rounds interval j w))"
      by simp
    with skip True ans bound before show ?thesis
      by (intro exI [of _ j]) simp
  next
    case False
    from wait_loop_deadline [OF False, of interval self]
    have "wait_loop timeout interval st self (after_rounds interval j w) =
            Some (Exc timeout_error, self, after_rounds interval j w)" .
    with skip False bound before show ?thesis
      by (intro exI [of _ j]) simp
  qed
qed

text \<open>What the loop does to \<open>connected\<close>, for any interval, whenever it returns.\<close>

lemma wait_loop_connected:
  "wait_loop timeout interval st self w = Some y \<Longrightarrow>
     connected (fst (snd y)) = (connected self \<or> fst y = Ret True)"
proof (induction rule: wait_loop.raw_induct [rotated 1, consumes 1])
  case (1 wait_loop timeout interval start_time self w y)
  then show ?case
    by (auto simp add: get_boot_time_eq time_sleep_def split: if_splits)
qed


text \<open>
  Three runs with the defaults: the host answers the second query; the host never
  answers; a query that exits with 255 but prints something ends the loop as a success,
  since \<^verbatim>\<open>_get_boot_time\<close> does not look at the exit code.
\<close>

lemma wait_example:
  "wait_for_reboot_and_reconnect 300 5 host0
      (world0 [Raises ''timed out'', Returns (Completed 0 ''B2'')] [])
   = Some (Ret True, host0\<lparr>connected := True, boot_time := Some ''B2''\<rparr>,
           world0 [Raises ''timed out'', Returns (Completed 0 ''B2'')] []
             \<lparr>n_run := 2, now := 5, n_sleep := 1\<rparr>)"
  by (simp add: wait_for_reboot_and_reconnect_def wait_loop.simps get_boot_time_eq probe_reply_eq
        time_sleep_def world0_simps strip_def is_space_def)

lemma wait_example_timeout:
  "wait_for_reboot_and_reconnect 300 5 host0 (world0 [] [])
   = Some (Exc timeout_error, host0, world0 [] [] \<lparr>n_run := 60, now := 300, n_sleep := 60\<rparr>)"
  by (simp add: wait_for_reboot_and_reconnect_def wait_loop.simps get_boot_time_eq probe_reply_eq
        time_sleep_def world0_simps timeout_error_def)

lemma wait_example_exit_code_ignored:
  "wait_for_reboot_and_reconnect 300 5 host0 (world0 [Returns (Completed 255 ''oops'')] [])
   = Some (Ret True, host0\<lparr>connected := True, boot_time := Some ''oops''\<rparr>,
           world0 [Returns (Completed 255 ''oops'')] [] \<lparr>n_run := 1\<rparr>)"
  by (simp add: wait_for_reboot_and_reconnect_def wait_loop.simps get_boot_time_eq probe_reply_eq
        time_sleep_def world0_simps strip_def is_space_def)





section \<open>The connected flag\<close>

text \<open>
  Claim C6 (the code departs from it). Nothing in \<^verbatim>\<open>RemoteExecutor\<close> clears the flag. A
  connected session whose remote query and ping both raise: \<open>is_alive\<close> returns \<^verbatim>\<open>False\<close>
  and \<open>connected\<close> is still true. A connected session whose host stays silent during the
  whole recovery loop: the loop raises its timeout error and \<open>connected\<close> is still true.
\<close>

theorem failed_probe_leaves_connected:
  "is_alive (host0\<lparr>connected := True\<rparr>) (world0 [] [])
     = (Ret False, host0\<lparr>connected := True\<rparr>, world0 [] [] \<lparr>n_run := 2\<rparr>)
   \<and> wait_for_reboot_and_reconnect 300 5 (host0\<lparr>connected := True\<rparr>) (world0 [] [])
     = Some (Exc timeout_error, host0\<lparr>connected := True\<rparr>,
             world0 [] [] \<lparr>n_run := 60, now := 300, n_sleep := 60\<rparr>)"
  by (simp add: is_alive_cases wait_for_reboot_and_reconnect_def wait_loop.simps get_boot_time_eq
        probe_reply_eq time_sleep_def world0_simps timeout_error_def)

text \<open>
  In general the flag only ever goes from false to true: in \<open>is_alive\<close>, in \<open>reconnect\<close>
  and in the recovery loop it is true afterwards exactly when it was true before or the
  call succeeded.
\<close>

lemma connected_never_cleared:
  "connected (fst (snd (is_alive self w))) = (connected self \<or> fst (is_alive self w) = Ret True)"
  "connected self \<Longrightarrow> connected (fst (snd (reconnect self w)))"
  "wait_for_reboot_and_reconnect timeout interval self w = Some (r, s', w')
     \<Longrightarrow> connected s' = (connected self \<or> r = Ret True)"
  using wait_loop_connected [of timeout interval "now w" self w "(r, s', w')"]
  by (auto simp add: is_alive_cases reconnect_cases Let_def wait_for_reboot_and_reconnect_def
        split: outcome.split)

section \<open>The command executor\<close>

lemma wait_default:
  "\<exists>r s' w'. wait_for_reboot_and_reconnect 300 5 self w = Some (r, s', w')
      \<and> n_popen w' = n_popen w
      \<and> (r = Ret True \<and> connected s' \<or> r = Exc timeout_error \<and> s' = self)"
proof -
  from wait_loop_result [of 5 300 w "now w" self] obtain j where
    "if now (after_rounds 5 j w) - now w < 300
          then probe_reply self w (n_run w + j) \<noteq> []
               \<and> wait_loop 300 5 (now w) self w =
                   Some (Ret True,
                         self\<lparr>connected := True,
                               boot_time := Some (probe_reply self w (n_run w + j))\<rparr>,
                         elapse_run (after_rounds 5 j w))
          else wait_loop 300 5 (now w) self w =
                   Some (Exc timeout_error, self, after_rounds 5 j w)"
    by auto
  then show ?thesis
    by (cases "now (after_rounds 5 j w) - now w < 300")
       (simp_all add: wait_for_reboot_and_reconnect_def)
qed

lemma reconnect_frame:
  "reconnect self w = (r, s', w') \<Longrightarrow> n_popen w' = n_popen w"
  by (auto simp add: reconnect_cases Let_def split: outcome.splits if_splits)

lemma subprocess_Popen_eq:
  "subprocess_Popen argv w =
     (case popen_oracle w (n_popen w) argv of Returns rc \<Rightarrow> Ret rc | Raises m \<Rightarrow> Exc (TransportError m),
      elapse_popen w)"
  by (simp add: subprocess_Popen_def split: outcome.split)

text \<open>
  Without a retry left the command is launched at most once; with one, at most twice.
  Every exception that leaves \<open>stream_execute\<close> is a \<^verbatim>\<open>RemoteExecutionError\<close>, so the
  handler for \<^verbatim>\<open>RemoteRebootDetected\<close> around the retried call is never entered.
\<close>

lemma stream_execute_no_retry:
  "\<exists>r s' w'. stream_execute command False handling self w = Some (r, s', w')
      \<and> n_popen w' \<le> Suc (n_popen w)
      \<and> (connected self \<longrightarrow> connected s')
      \<and> (case r of Ret v \<Rightarrow> True | Exc e \<Rightarrow> \<exists>m. e = RemoteExecutionError m)"
proof (cases "connected self")
  case False
  obtain r s1 w1 where rc: "reconnect self w = (r, s1, w1)"
    by (metis prod_cases3)
  from reconnect_frame [OF rc] have "n_popen w1 = n_popen w" by simp
  with False rc show ?thesis
    by (subst stream_execute.simps) (simp add: reconnect_failed_def split: result.split)
next
  case True
  from wait_default [of self "elapse_popen w"] obtain r2 s2 w2 where
    wt: "wait_for_reboot_and_reconnect 300 5 self (elapse_popen w) = Some (r2, s2, w2)"
    and np: "n_popen w2 = n_popen (elapse_popen w)"
    and r2: "r2 = Ret True \<and> connected s2 \<or> r2 = Exc timeout_error \<and> s2 = self"
    by blast
  from True wt np r2 show ?thesis
    by (subst stream_execute.simps)
       (auto simp add: subprocess_Popen_eq streaming_failed_def timeout_error_def
             split: outcome.split)
qed

lemma stream_execute_retry:
  "\<exists>r s' w'. stream_execute command True handling self w = Some (r, s', w')
      \<and> n_popen w' \<le> Suc (Suc (n_popen w))
      \<and> (connected self \<longrightarrow> connected s')
      \<and> (case r of Ret v \<Rightarrow> True | Exc e \<Rightarrow> \<exists>m. e = RemoteExecutionError m)"
proof (cases "connected self")
  case False
  obtain r s1 w1 where rc: "reconnect self w = (r, s1, w1)"
    by (metis prod_cases3)
  from reconnect_frame [OF rc] have np: "n_popen w1 = n_popen w" by simp
  from stream_execute_no_retry [of command handling s1 w1] obtain r2 s2 w2 where
    inner: "stream_execute command False handling s1 w1 = Some (r2, s2, w2)"
    and np2: "n_popen w2 \<le> Suc (n_popen w1)"
    by blast
  from False rc np inner np2 show ?thesis
    by (subst stream_execute.simps) (simp add: reconnect_failed_def split: result.split)
next
  case True
  from wait_default [of self "elapse_popen w"] obtain r2 s2 w2 where
    wt: "wait_for_reboot_and_reconnect 300 5 self (elapse_popen w) = Some (r2, s2, w2)"
    and np: "n_popen w2 = n_popen (elapse_popen w)"
    and r2: "r2 = Ret True \<and> connected s2 \<or> r2 = Exc timeout_error \<and> s2 = self"
    by blast
  from stream_execute_no_retry [of command handling s2 w2] obtain r3 s3 w3 where
    inner: "stream_execute command False handling s2 w2 = Some (r3, s3, w3)"
    and np3: "n_popen w3 \<le> Suc (n_popen w2)"
    and c3: "connected s2 \<longrightarrow> connected s3"
    and r3: "case r3 of Ret v \<Rightarrow> True | Exc e \<Rightarrow> \<exists>m. e = RemoteExecutionError m"
    by blast
  from True wt np r2 inner np3 c3 r3 show ?thesis
    by (subst stream_execute.simps)
       (auto simp add: subprocess_Popen_eq streaming_failed_def timeout_error_def
             split: outcome.split result.splits)
qed

text \<open>
  Claim C5. On a connected session a command that exits with a code other than 0 and 255
  fails at once with a \<^verbatim>\<open>RemoteExecutionError\<close> that carries the code: the command was
  launched once, no query was made, no sleep happened and the object is unchanged,
  whether a retry was allowed or not.
\<close>

theorem nonzero_exit_fails_at_once:
  assumes "connected self"
      and "popen_oracle w (n_popen w) (build_ssh_command self command) = Returns rc"
      and "rc \<noteq> 0" and "rc \<noteq> 255"
  shows "stream_execute command retry_on_reboot handling self w =
           Some (Exc (RemoteExecutionError
                        (''Streaming command failed: Command failed with code '' @ str_int rc)),
                 self, elapse_popen w)"
  using assms
  by (subst stream_execute.simps) (simp add: subprocess_Popen_eq streaming_failed_def)

text \<open>\<^verbatim>\<open>false\<close> exits with 1.\<close>

theorem nonzero_exit_fails_at_once_witness:
  "connected (host0\<lparr>connected := True\<rparr>)
   \<and> popen_oracle (world0 [] [Returns 1]) (n_popen (world0 [] [Returns 1]))
        (build_ssh_command (host0\<lparr>connected := True\<rparr>) ''false'') = Returns 1
   \<and> (1::int) \<noteq> 0 \<and> (1::int) \<noteq> 255
   \<and> stream_execute ''false'' True None (host0\<lparr>connected := True\<rparr>) (world0 [] [Returns 1])
      = Some (Exc (RemoteExecutionError ''Streaming command failed: Command failed with code 1''),
              host0\<lparr>connected := True\<rparr>, world0 [] [Returns 1] \<lparr>n_popen := 1\<rparr>)"
proof -
  let ?s = "host0\<lparr>connected := True\<rparr>" and ?w = "world0 [] [Returns 1]"
  have h1: "connected ?s" by simp
  have h2: "popen_oracle ?w (n_popen ?w) (build_ssh_command ?s ''false'') = Returns 1"
    by (simp add: world0_def script_def)
  have h3: "(1::int) \<noteq> 0" and h4: "(1::int) \<noteq> 255" by simp_all
  have n: "str_int 1 = ''1''"
    by (simp add: str_int_def str_nat.simps digit_char_def)
  from nonzero_exit_fails_at_once [OF h1 h2 h3 h4, of True None] h1 h2 show ?thesis
    by (simp add: n world0_simps)
qed


text \<open>
  Claim C2, as the code has it. A connected session, no retry left, the launch exits with
  255 and the host stays silent: the recovery loop runs for its 60 rounds and the error
  that leaves \<open>stream_execute\<close> is the timeout of the recovery loop, not the exhausted
  retry.
\<close>

theorem retry_exhausted_counterexample:
  "stream_execute ''uptime'' False None (host0\<lparr>connected := True\<rparr>) (world0 [] [Returns 255])
   = Some (Exc (RemoteExecutionError
        ''Streaming command failed:  Timeout: Remote host did not come back online.''),
           host0\<lparr>connected := True\<rparr>,
           world0 [] [Returns 255] \<lparr>n_run := 60, n_popen := 1, now := 300, n_sleep := 60\<rparr>)"
  by (simp add: stream_execute.simps subprocess_Popen_eq wait_for_reboot_and_reconnect_def
        wait_loop.simps get_boot_time_eq probe_reply_eq time_sleep_def streaming_failed_def
        world0_simps)

text \<open>
  Two launches exit with 255 in one call: the recovery loop runs after each of them (two
  queries and one sleep each time), the command is launched twice and not a third time.
\<close>

lemma two_failures_two_recoveries:
  "stream_execute ''uptime'' True None (host0\<lparr>connected := True\<rparr>)
      (world0 [Raises ''timed out'', Returns (Completed 0 ''B1''),
               Raises ''timed out'', Returns (Completed 0 ''B1'')]
              [Returns 255, Returns 255, Returns 255])
   = Some (Exc (RemoteExecutionError
       ''Streaming command failed: Streaming command failed: SSH failed and retry exhausted.''),
           host0\<lparr>connected := True, boot_time := Some ''B1''\<rparr>,
           world0 [Raises ''timed out'', Returns (Completed 0 ''B1''),
                   Raises ''timed out'', Returns (Completed 0 ''B1'')]
                  [Returns 255, Returns 255, Returns 255]
             \<lparr>n_run := 4, n_popen := 2, now := 10, n_sleep := 2\<rparr>)"
  by (simp add: stream_execute.simps subprocess_Popen_eq wait_for_reboot_and_reconnect_def
        wait_loop.simps get_boot_time_eq probe_reply_eq time_sleep_def streaming_failed_def
        world0_simps host0_def RemoteExecutor_init_def strip_def is_space_def)

text \<open>
  Claim C2, amended. A call with \<^verbatim>\<open>retry_on_reboot=True\<close> returns and launches the command
  at most twice, whatever the outcomes are (all launches may end with 255); a call with
  \<^verbatim>\<open>retry_on_reboot=False\<close> returns and launches it at most once. On a connected session
  a launch that ends with 255 is followed by one run of the recovery loop, which returns
  \<^verbatim>\<open>True\<close> or raises its timeout error (so the recovery loop runs after every such launch,
  up to twice in one top-level call). Without a retry left no further launch follows and
  a \<^verbatim>\<open>RemoteExecutionError\<close> is raised: it says that the retry is exhausted when the
  recovery loop returned, and it carries the loop's timeout error when it did not. With
  a retry left, a recovery that timed out ends the call with that error, and a recovery
  that returned is followed by exactly one call without a retry, whose result is the
  result of the whole call (an error of it is wrapped once more).
\<close>

theorem single_retry_bound:
  "(\<exists>r s' w'. stream_execute command True handling self w = Some (r, s', w')
        \<and> n_popen w' \<le> n_popen w + 2)
   \<and> (\<exists>r s' w'. stream_execute command False handling self w = Some (r, s', w')
        \<and> n_popen w' \<le> n_popen w + 1)
   \<and> (connected self
        \<and> popen_oracle w (n_popen w) (build_ssh_command self command) = Returns 255
      \<longrightarrow> (\<exists>r2 s2 w2.
            wait_for_reboot_and_reconnect 300 5 self (elapse_popen w) = Some (r2, s2, w2)
          \<and> n_popen w2 = n_popen w + 1
          \<and> (r2 = Ret True \<or> r2 = Exc timeout_error)
          \<and> stream_execute command False handling self w
              = Some (streaming_failed (case r2 of Ret b \<Rightarrow> retry_exhausted | Exc e \<Rightarrow> e),
                      s2, w2)
          \<and> stream_execute command True handling self w
              = (case r2 of
                   Exc e \<Rightarrow> Some (streaming_failed e, s2, w2)
                 | Ret b \<Rightarrow>
                     (case stream_execute command False handling s2 w2 of
                        None \<Rightarrow> None
                      | Some (Ret v, s3, w3) \<Rightarrow> Some (Ret v, s3, w3)
                      | Some (Exc e, s3, w3) \<Rightarrow> Some (streaming_failed e, s3, w3)))))"
proof (intro conjI impI)
  from stream_execute_retry [of command handling self w]
  show "\<exists>r s' w'. stream_execute command True handling self w = Some (r, s', w')
        \<and> n_popen w' \<le> n_popen w + 2"
    by auto
next
  from stream_execute_no_retry [of command handling self w]
  show "\<exists>r s' w'. stream_execute command False handling self w = Some (r, s', w')
        \<and> n_popen w' \<le> n_popen w + 1"
    by auto
next
  assume a: "connected self
        \<and> popen_oracle w (n_popen w) (build_ssh_command self command) = Returns 255"
  from wait_default [of self "elapse_popen w"] obtain r2 s2 w2 where
    wt: "wait_for_reboot_and_reconnect 300 5 self (elapse_popen w) = Some (r2, s2, w2)"
    and np: "n_popen w2 = n_popen (elapse_popen w)"
    and r2: "r2 = Ret True \<and> connected s2 \<or> r2 = Exc timeout_error \<and> s2 = self"
    by blast
  from stream_execute_no_retry [of command handling s2 w2] obtain r3 s3 w3 where
    inner: "stream_execute command False handling s2 w2 = Some (r3, s3, w3)"
    and r3: "case r3 of Ret v \<Rightarrow> True | Exc e \<Rightarrow> \<exists>m. e = RemoteExecutionError m"
    by blast
  have no_retry: "stream_execute command False handling self w
              = Some (streaming_failed (case r2 of Ret b \<Rightarrow> retry_exhausted | Exc e \<Rightarrow> e),
                      s2, w2)"
    using a wt r2
    by (subst stream_execute.simps)
       (auto simp add: subprocess_Popen_eq retry_exhausted_def timeout_error_def)
  have retry: "stream_execute command True handling self w
              = (case r2 of
                   Exc e \<Rightarrow> Some (streaming_failed e, s2, w2)
                 | Ret b \<Rightarrow>
                     (case stream_execute command False handling s2 w2 of
                        None \<Rightarrow> None
                      | Some (Ret v, s3, w3) \<Rightarrow> Some (Ret v, s3, w3)
                      | Some (Exc e, s3, w3) \<Rightarrow> Some (streaming_failed e, s3, w3)))"
    using a wt r2 inner r3
    by (subst stream_execute.simps)
       (auto simp add: subprocess_Popen_eq timeout_error_def split: result.splits)
  from wt np r2 no_retry retry
  show "\<exists>r2 s2 w2.
            wait_for_reboot_and_reconnect 300 5 self (elapse_popen w) = Some (r2, s2, w2)
          \<and> n_popen w2 = n_popen w + 1
          \<and> (r2 = Ret True \<or> r2 = Exc timeout_error)
          \<and> stream_execute command False handling self w
              = Some (streaming_failed (case r2 of Ret b \<Rightarrow> retry_exhausted | Exc e \<Rightarrow> e),
                      s2, w2)
          \<and> stream_execute command True handling self w
              = (case r2 of
                   Exc e \<Rightarrow> Some (streaming_failed e, s2, w2)
                 | Ret b \<Rightarrow>
                     (case stream_execute command False handling s2 w2 of
                        None \<Rightarrow> None
                      | Some (Ret v, s3, w3) \<Rightarrow> Some (Ret v, s3, w3)
                      | Some (Exc e, s3, w3) \<Rightarrow> Some (streaming_failed e, s3, w3)))"
    by (intro exI [of _ r2] exI [of _ s2] exI [of _ w2]) auto
qed

text \<open>The retried launch ends with 255 and the host answers the first query.\<close>

theorem single_retry_bound_witness:
  "connected (host0\<lparr>connected := True\<rparr>)
   \<and> popen_oracle (world0 [Returns (Completed 0 ''B1'')] [Returns 255])
        (n_popen (world0 [Returns (Completed 0 ''B1'')] [Returns 255]))
        (build_ssh_command (host0\<lparr>connected := True\<rparr>) ''uptime'') = Returns 255
   \<and> stream_execute ''uptime'' False None (host0\<lparr>connected := True\<rparr>)
        (world0 [Returns (Completed 0 ''B1'')] [Returns 255])
      = Some (Exc (RemoteExecutionError ''Streaming command failed: SSH failed and retry exhausted.''),
              host0\<lparr>connected := True, boot_time := Some ''B1''\<rparr>,
              world0 [Returns (Completed 0 ''B1'')] [Returns 255] \<lparr>n_run := 1, n_popen := 1\<rparr>)"
proof -
  let ?s = "host0\<lparr>connected := True\<rparr>"
  let ?w = "world0 [Returns (Completed 0 ''B1'')] [Returns 255]"
  have h: "connected ?s \<and> popen_oracle ?w (n_popen ?w) (build_ssh_command ?s ''uptime'') = Returns 255"
    by (simp add: world0_def script_def)
  have wt: "wait_for_reboot_and_reconnect 300 5 ?s (elapse_popen ?w)
          = Some (Ret True, host0\<lparr>connected := True, boot_time := Some ''B1''\<rparr>,
                  ?w\<lparr>n_run := 1, n_popen := 1\<rparr>)"
    by (simp add: wait_for_reboot_and_reconnect_def wait_loop.simps get_boot_time_eq probe_reply_eq
          world0_simps strip_def is_space_def host0_def RemoteExecutor_init_def)
  from single_retry_bound [of "''uptime''" None ?s ?w] h
  obtain r2 s2 w2 where
    "wait_for_reboot_and_reconnect 300 5 ?s (elapse_popen ?w) = Some (r2, s2, w2)"
    and "stream_execute ''uptime'' False None ?s ?w
           = Some (streaming_failed (case r2 of Ret b \<Rightarrow> retry_exhausted | Exc e \<Rightarrow> e), s2, w2)"
    by blast
  then have "stream_execute ''uptime'' False None ?s ?w
      = Some (streaming_failed retry_exhausted, host0\<lparr>connected := True, boot_time := Some ''B1''\<rparr>,
              ?w\<lparr>n_run := 1, n_popen := 1\<rparr>)"
    unfolding wt by auto
  with h show ?thesis
    by (simp add: streaming_failed_def retry_exhausted_def)
qed

text \<open>
  On a fresh object the one retry is spent on the call after \<open>reconnect\<close>, so a launch
  that ends with 255 is not repeated even though the host comes back.
\<close>

lemma first_call_refused_not_retried:
  "stream_execute ''uptime'' True None host0
      (world0 [Returns (Completed 0 ''B1''), Returns (Completed 0 ''B1''),
               Raises ''timed out'', Returns (Completed 0 ''B2'')]
              [Returns 255, Returns 0])
   = Some (Exc (RemoteExecutionError
       ''Reconnect failed: Streaming command failed: SSH failed and retry exhausted.''),
           host0\<lparr>connected := True, boot_time := Some ''B2''\<rparr>,
           world0 [Returns (Completed 0 ''B1''), Returns (Completed 0 ''B1''),
               Raises ''timed out'', Returns (Completed 0 ''B2'')]
              [Returns 255, Returns 0] \<lparr>n_run := 4, n_popen := 1, now := 5, n_sleep := 1\<rparr>)"
  by (simp add: stream_execute.simps reconnect_cases subprocess_Popen_eq wait_for_reboot_and_reconnect_def
        wait_loop.simps get_boot_time_eq probe_reply_eq streaming_failed_def reconnect_failed_def
        time_sleep_def Let_def
        world0_simps host0_def RemoteExecutor_init_def strip_def is_space_def)

text \<open>
  When \<open>reconnect\<close> raises, the handler \<^verbatim>\<open>except Exception\<close> of the branch wraps the
  exception, whatever it is and whether a retry is left or not. When \<open>reconnect\<close> returns
  and no retry is left, the bare \<^verbatim>\<open>raise\<close> is wrapped in the same way.
\<close>

lemma stream_execute_reconnect_raises:
  assumes "\<not> connected self" and "reconnect self w = (Exc e, s1, w1)"
  shows "stream_execute command retry_on_reboot handling self w = Some (reconnect_failed e, s1, w1)"
  using assms by (subst stream_execute.simps) simp

lemma stream_execute_bare_raise:
  assumes "\<not> connected self" and "reconnect self w = (Ret b, s1, w1)"
  shows "stream_execute command False handling self w
           = Some (reconnect_failed (bare_raise handling), s1, w1)"
  using assms by (subst stream_execute.simps) simp

text \<open>
  Claim C3 (the code departs from it). A fresh object, a retry allowed; the probe answers
  \<open>B1\<close> and the second query \<open>B2\<close>, so \<open>reconnect\<close> raises \<^verbatim>\<open>RemoteRebootDetected\<close>.
  \<open>stream_execute\<close> fails with \<^verbatim>\<open>RemoteExecutionError\<close> at once: the command is never
  launched and no second attempt is made.
\<close>

theorem reboot_on_reconnect_not_retried:
  "stream_execute ''uptime'' True None host0
      (world0 [Returns (Completed 0 ''B1''), Returns (Completed 0 ''B2'')] [Returns 0])
   = Some (Exc (RemoteExecutionError
                  ''Reconnect failed: Remote host rebooted! Old: B1, New: B2''),
           host0\<lparr>boot_time := Some ''B2'', connected := True\<rparr>,
           world0 [Returns (Completed 0 ''B1''), Returns (Completed 0 ''B2'')] [Returns 0]
             \<lparr>n_run := 2\<rparr>)"
  by (simp add: stream_execute.simps reconnect_cases probe_reply_eq Let_def reconnect_failed_def
        reboot_message_def world0_simps host0_def RemoteExecutor_init_def strip_def
        is_space_def)


end
